theory Spec2Isabelle
  imports Main "HOL-Library.Word" "HOL-Library.Signed_Division"
begin

section \<open>The combobox of packages/combobox/src/index.js\<close>

text \<open>
  The widget is a state chart (which action is legal in which state), a reducer (what an
  action does to the data), a machine driver that composes the two, and event handlers
  that decide which transition to ask for. Each is embedded below as a function that
  computes what the JavaScript computes; a \<open>throw\<close> is the \<open>Inl\<close> of a sum.
\<close>

subsection \<open>JavaScript values\<close>

text \<open>
  A JavaScript string is a sequence of UTF-16 code units (\<open>charCodeAt\<close> reads one).
  The fields \<open>value\<close> and \<open>navigationValue\<close> and the payload of an action hold a
  string, \<open>null\<close> or \<open>undefined\<close> (a payload that was not passed).
\<close>

type_synonym jsstring = "16 word list"

datatype jsval = Undefined | Null | Str jsstring


text \<open>
  The code units \<open>String.prototype.trim\<close> removes: the WhiteSpace and LineTerminator
  productions of ECMAScript.
\<close>

definition isWhiteSpace :: "16 word \<Rightarrow> bool" where
  "isWhiteSpace c \<longleftrightarrow>
     c \<in> {0x0009, 0x000A, 0x000B, 0x000C, 0x000D, 0x0020, 0x00A0, 0x1680,
          0x2000, 0x2001, 0x2002, 0x2003, 0x2004, 0x2005, 0x2006, 0x2007, 0x2008,
          0x2009, 0x200A, 0x2028, 0x2029, 0x202F, 0x205F, 0x3000, 0xFEFF}"

definition trim :: "jsstring \<Rightarrow> jsstring" where
  "trim s = rev (dropWhile isWhiteSpace (rev (dropWhile isWhiteSpace s)))"

subsection \<open>States and actions\<close>

datatype state = IDLE | SUGGESTING | NAVIGATING | INTERACTING

text \<open>Action names are strings in the source, so a name outside the eight exists.\<close>

definition CLEAR :: string where "CLEAR = ''CLEAR''"
definition CHANGE :: string where "CHANGE = ''CHANGE''"
definition NAVIGATE :: string where "NAVIGATE = ''NAVIGATE''"
definition SELECT_WITH_KEYBOARD :: string where "SELECT_WITH_KEYBOARD = ''SELECT_WITH_KEYBOARD''"
definition SELECT_WITH_CLICK :: string where "SELECT_WITH_CLICK = ''SELECT_WITH_CLICK''"
definition ESCAPE :: string where "ESCAPE = ''ESCAPE''"
definition BLUR :: string where "BLUR = ''BLUR''"
definition INTERACT :: string where "INTERACT = ''INTERACT''"

subsection \<open>The state chart\<close>

text \<open>
  \<open>stateChart.states[s].on\<close>, entry by entry in the order of the source. The table is
  read by the keys the object literal writes.
\<close>

definition stateChart_initial :: state where
  "stateChart_initial = IDLE"

fun stateChart_on :: "state \<Rightarrow> (string \<times> state) list" where
  "stateChart_on IDLE =
     [(BLUR, IDLE), (CLEAR, IDLE), (CHANGE, SUGGESTING), (NAVIGATE, NAVIGATING)]"
| "stateChart_on SUGGESTING =
     [(CHANGE, SUGGESTING), (NAVIGATE, NAVIGATING), (CLEAR, IDLE), (ESCAPE, IDLE),
      (BLUR, IDLE), (SELECT_WITH_CLICK, IDLE), (INTERACT, INTERACTING)]"
| "stateChart_on NAVIGATING =
     [(CHANGE, SUGGESTING), (CLEAR, IDLE), (BLUR, IDLE), (ESCAPE, IDLE),
      (NAVIGATE, NAVIGATING), (SELECT_WITH_KEYBOARD, IDLE), (SELECT_WITH_CLICK, IDLE),
      (INTERACT, INTERACTING)]"
| "stateChart_on INTERACTING =
     [(CHANGE, SUGGESTING), (BLUR, IDLE), (ESCAPE, IDLE), (NAVIGATE, NAVIGATING)]"

subsection \<open>The data and the reducer\<close>

text \<open>
  \<open>lastActionType\<close> is absent from \<open>defaultData\<close> (\<open>None\<close>) and set by every
  reducer step.
\<close>

record data =
  data_value :: jsval
  navigationValue :: jsval
  lastActionType :: "string option"

definition defaultData :: data where
  "defaultData = \<lparr>data_value = Str [], navigationValue = Null, lastActionType = None\<rparr>"

text \<open>
  The object \<open>transition\<close> dispatches: \<open>{type: action, state, nextState: state,
  ...payload}\<close>. The only payload key the callers pass is \<open>value\<close>.
\<close>

record action =
  action_type :: string
  action_state :: state
  action_nextState :: state
  action_value :: jsval

datatype error =
  UnknownAction string
| UnknownActionForState string state

definition reducer :: "data \<Rightarrow> action \<Rightarrow> error + data" where
  "reducer d a =
     (let nextState = d\<lparr>lastActionType := Some (action_type a)\<rparr> in
      if action_type a = CHANGE then
        Inr (nextState\<lparr>navigationValue := Null, data_value := action_value a\<rparr>)
      else if action_type a = NAVIGATE then
        Inr (nextState\<lparr>navigationValue := action_value a\<rparr>)
      else if action_type a = CLEAR then
        Inr (nextState\<lparr>data_value := Str [], navigationValue := Null\<rparr>)
      else if action_type a = BLUR \<or> action_type a = ESCAPE then
        Inr (nextState\<lparr>navigationValue := Null\<rparr>)
      else if action_type a = SELECT_WITH_CLICK then
        Inr (nextState\<lparr>data_value := action_value a, navigationValue := Null\<rparr>)
      else if action_type a = SELECT_WITH_KEYBOARD then
        Inr (nextState\<lparr>data_value := navigationValue d, navigationValue := Null\<rparr>)
      else if action_type a = INTERACT then
        Inr (nextState\<lparr>navigationValue := Null\<rparr>)
      else Inl (UnknownAction (action_type a)))"

text \<open>A run of reducer steps; the first throw ends it.\<close>

fun reducer_steps :: "data \<Rightarrow> action list \<Rightarrow> error + data" where
  "reducer_steps d [] = Inr d"
| "reducer_steps d (a # as) =
     (case reducer d a of Inl e \<Rightarrow> Inl e | Inr d' \<Rightarrow> reducer_steps d' as)"

subsection \<open>The machine driver\<close>

text \<open>
  \<open>transition\<close> of \<open>useReducerMachine(stateChart, reducer, defaultData)\<close>: the chart
  is asked first, then the action is dispatched to the reducer and the next state set.
  The state and the data are passed in and returned.
\<close>

definition transition :: "state \<Rightarrow> data \<Rightarrow> string \<Rightarrow> jsval \<Rightarrow> error + state \<times> data" where
  "transition st d a payload =
     (case map_of (stateChart_on st) a of
        None \<Rightarrow> Inl (UnknownActionForState a st)
      | Some nextState \<Rightarrow>
          (case reducer d \<lparr>action_type = a, action_state = st, action_nextState = st,
                           action_value = payload\<rparr> of
             Inl e \<Rightarrow> Inl e
           | Inr d' \<Rightarrow> Inr (nextState, d')))"

subsection \<open>The keyboard handler\<close>

text \<open>
  What \<open>useKeyDown\<close> reads from the context: the data, whether an \<open>onSelect\<close> prop
  was given, the option registry \<open>optionsRef.current\<close> (\<open>null\<close> until a list has
  rendered), the state, and \<open>autocompletePropRef.current\<close>. An option's value is a
  string (\<open>makeHash\<close> reads its length and code units).
\<close>

record combobox_context =
  ctx_data :: data
  ctx_onSelect :: bool
  ctx_optionsRef :: "jsstring list option"
  ctx_state :: state
  ctx_autocompletePropRef :: bool

text \<open>What a handler does, in order: the calls it makes on the event, the callback and
  the machine.\<close>

datatype effect =
  PreventDefault
| OnSelect jsval
| Transition string jsval

text \<open>\<open>Array.prototype.indexOf\<close>: the first index that is strictly equal, or -1.\<close>

fun indexOf_from :: "jsstring list \<Rightarrow> jsstring \<Rightarrow> int \<Rightarrow> int" where
  "indexOf_from [] s i = - 1"
| "indexOf_from (x # xs) s i = (if x = s then i else indexOf_from xs s (i + 1))"

fun indexOf :: "jsstring list \<Rightarrow> jsval \<Rightarrow> int" where
  "indexOf xs (Str s) = indexOf_from xs s 0"
| "indexOf xs Null = - 1"
| "indexOf xs Undefined = - 1"

text \<open>\<open>options[i]\<close>: undefined out of range.\<close>

definition array_get :: "jsstring list \<Rightarrow> int \<Rightarrow> jsval" where
  "array_get xs i = (if 0 \<le> i \<and> i < int (length xs) then Str (xs ! nat i) else Undefined)"

text \<open>JavaScript's \<open>%\<close> takes the sign of the dividend: \<open>smod\<close>.\<close>

definition handleKeyDown :: "combobox_context \<Rightarrow> string \<Rightarrow> effect list" where
  "handleKeyDown c key =
     (let navigationValue = navigationValue (ctx_data c) in
      if key = ''ArrowDown'' then
        PreventDefault #
        (case ctx_optionsRef c of
           None \<Rightarrow> []
         | Some options \<Rightarrow>
             if length options = 0 then []
             else if ctx_state c = IDLE then [Transition NAVIGATE Null]
             else
               let index = indexOf options navigationValue;
                   atBottom = (index = int (length options) - 1)
               in
               if atBottom then
                 (if ctx_autocompletePropRef c then [Transition NAVIGATE Null]
                  else [Transition NAVIGATE (array_get options 0)])
               else
                 [Transition NAVIGATE
                    (array_get options ((index + 1) smod int (length options)))])
      else if key = ''ArrowUp'' then
        PreventDefault #
        (case ctx_optionsRef c of
           None \<Rightarrow> []
         | Some options \<Rightarrow>
             if length options = 0 then []
             else if ctx_state c = IDLE then [Transition NAVIGATE Null]
             else
               let index = indexOf options navigationValue in
               if index = 0 then
                 (if ctx_autocompletePropRef c then [Transition NAVIGATE Null]
                  else [Transition NAVIGATE (array_get options (int (length options) - 1))])
               else if index = - 1 then
                 [Transition NAVIGATE
                    (if length options \<noteq> 0 then array_get options (int (length options) - 1)
                     else Null)]
               else
                 [Transition NAVIGATE
                    (array_get options
                       ((index - 1 + int (length options)) smod int (length options)))])
      else if key = ''Escape'' then
        (if ctx_state c \<noteq> IDLE then [Transition ESCAPE Undefined] else [])
      else if key = ''Enter'' then
        (if ctx_state c = NAVIGATING \<and> navigationValue \<noteq> Null then
           PreventDefault #
           (if ctx_onSelect c then [OnSelect navigationValue] else []) @
           [Transition SELECT_WITH_KEYBOARD Undefined]
         else [])
      else [])"

text \<open>The transitions a handler asked for, and the values it handed to \<open>onSelect\<close>.\<close>

fun transitions_of :: "effect list \<Rightarrow> (string \<times> jsval) list" where
  "transitions_of [] = []"
| "transitions_of (Transition a p # es) = (a, p) # transitions_of es"
| "transitions_of (e # es) = transitions_of es"

fun selections_of :: "effect list \<Rightarrow> jsval list" where
  "selections_of [] = []"
| "selections_of (OnSelect v # es) = v # selections_of es"
| "selections_of (e # es) = selections_of es"

subsection \<open>The controlled input\<close>

text \<open>
  \<open>handleValueChange\<close> and the test in the body of \<open>ComboboxInput\<close> that calls it
  while rendering: \<open>isControlled && controlledValue !== value\<close>. The result is the
  call of \<open>transition\<close> the render makes, if any.
\<close>

definition isControlled :: "jsval \<Rightarrow> bool" where
  "isControlled controlledValue \<longleftrightarrow> controlledValue \<noteq> Null \<and> controlledValue \<noteq> Undefined"

definition handleValueChange :: "jsstring \<Rightarrow> string \<times> jsval" where
  "handleValueChange v = (if trim v = [] then (CLEAR, Undefined) else (CHANGE, Str v))"

definition render_sync :: "data \<Rightarrow> jsval \<Rightarrow> (string \<times> jsval) option" where
  "render_sync d controlledValue =
     (if isControlled controlledValue \<and> controlledValue \<noteq> data_value d then
        (case controlledValue of Str v \<Rightarrow> Some (handleValueChange v) | _ \<Rightarrow> None)
      else None)"

text \<open>One render of the input on the machine: the call, if any, made on the driver.\<close>

definition render_input :: "state \<Rightarrow> data \<Rightarrow> jsval \<Rightarrow> error + state \<times> data" where
  "render_input st d controlledValue =
     (case render_sync d controlledValue of
        None \<Rightarrow> Inr (st, d)
      | Some (a, payload) \<Rightarrow> transition st d a payload)"

text \<open>
  A run of renders under one controlled value: each render meets the state and the data
  the render before it left. A throw ends the run.
\<close>

fun render_input_times :: "nat \<Rightarrow> state \<Rightarrow> data \<Rightarrow> jsval \<Rightarrow> error + state \<times> data" where
  "render_input_times 0 st d controlledValue = Inr (st, d)"
| "render_input_times (Suc n) st d controlledValue =
     (case render_input st d controlledValue of
        Inl e \<Rightarrow> Inl e
      | Inr (st', d') \<Rightarrow> render_input_times n st' d' controlledValue)"

subsection \<open>Option identity\<close>

text \<open>
  \<open>makeHash\<close>. \<open>hash << 5\<close> and \<open>hash & hash\<close> convert to a 32-bit signed integer;
  the subtraction and the addition between them are exact.
\<close>

definition toInt32 :: "int \<Rightarrow> int" where
  "toInt32 x = (x + 2 ^ 31) mod 2 ^ 32 - 2 ^ 31"

definition shiftLeft :: "int \<Rightarrow> nat \<Rightarrow> int" where
  "shiftLeft x n = toInt32 (toInt32 x * 2 ^ (n mod 32))"

fun makeHash_loop :: "jsstring \<Rightarrow> int \<Rightarrow> int" where
  "makeHash_loop [] hash = hash"
| "makeHash_loop (char # str) hash =
     makeHash_loop str (toInt32 (shiftLeft hash 5 - hash + uint char))"

definition makeHash :: "jsstring \<Rightarrow> int" where
  "makeHash str = (if length str = 0 then 0 else makeHash_loop str 0)"




subsection \<open>The calls of transition\<close>

text \<open>
  The eight shapes in which the handlers call \<open>transition\<close>, which are the Action of the
  specification: \<open>transition(CLEAR)\<close>, \<open>transition(CHANGE, {value})\<close>,
  \<open>transition(NAVIGATE, {value})\<close> with a string or \<open>null\<close>, and so on. A call
  without a payload leaves \<open>action.value\<close> undefined.
\<close>

datatype Action =
  Clear
| Change jsstring
| Navigate "jsstring option"
| SelectWithKeyboard
| SelectWithClick jsstring
| Escape
| Blur
| Interact

fun Action_type :: "Action \<Rightarrow> string" where
  "Action_type Clear = CLEAR"
| "Action_type (Change v) = CHANGE"
| "Action_type (Navigate v) = NAVIGATE"
| "Action_type SelectWithKeyboard = SELECT_WITH_KEYBOARD"
| "Action_type (SelectWithClick v) = SELECT_WITH_CLICK"
| "Action_type Escape = ESCAPE"
| "Action_type Blur = BLUR"
| "Action_type Interact = INTERACT"

fun Action_payload :: "Action \<Rightarrow> jsval" where
  "Action_payload (Change v) = Str v"
| "Action_payload (Navigate None) = Null"
| "Action_payload (Navigate (Some v)) = Str v"
| "Action_payload (SelectWithClick v) = Str v"
| "Action_payload _ = Undefined"

definition dispatched :: "state \<Rightarrow> Action \<Rightarrow> action" where
  "dispatched st A =
     \<lparr>action_type = Action_type A, action_state = st, action_nextState = st,
      action_value = Action_payload A\<rparr>"

subsection \<open>Reachable data\<close>

text \<open>
  The data a run of reducer steps can reach from \<open>defaultData\<close> when the payloads are
  the ones the handlers pass and \<open>SELECT_WITH_KEYBOARD\<close> is dispatched only while
  \<open>navigationValue\<close> is not \<open>null\<close>, which is what the Enter branch of
  \<open>handleKeyDown\<close> tests before it calls \<open>transition\<close>.
\<close>

inductive reachable :: "data \<Rightarrow> bool" where
  initial: "reachable defaultData"
| step: "reachable d \<Longrightarrow> A \<noteq> SelectWithKeyboard \<Longrightarrow>
         reducer d (dispatched st A) = Inr d' \<Longrightarrow> reachable d'"
| select: "reachable d \<Longrightarrow> navigationValue d \<noteq> Null \<Longrightarrow>
           reducer d (dispatched st SelectWithKeyboard) = Inr d' \<Longrightarrow> reachable d'"

subsection \<open>The specification's tables, for comparison\<close>

text \<open>The legal-action sets as the specification lists them (its section 3).\<close>

fun spec_legal_actions :: "state \<Rightarrow> string set" where
  "spec_legal_actions IDLE = {BLUR, CLEAR, CHANGE, NAVIGATE}"
| "spec_legal_actions SUGGESTING =
     {CHANGE, NAVIGATE, CLEAR, ESCAPE, BLUR, SELECT_WITH_CLICK, INTERACT}"
| "spec_legal_actions NAVIGATING =
     {CHANGE, CLEAR, BLUR, ESCAPE, NAVIGATE, SELECT_WITH_KEYBOARD, SELECT_WITH_CLICK,
      INTERACT}"
| "spec_legal_actions INTERACTING = {CHANGE, BLUR, ESCAPE, NAVIGATE}"

text \<open>
  The reducer as the specification words it (its section 4.2), rule by rule, with
  \<open>lastActionType\<close> recording the kind of the action applied (its section 3).
\<close>

fun spec_reducer :: "data \<Rightarrow> Action \<Rightarrow> data" where
  "spec_reducer d (Change v) =
     \<lparr>data_value = Str v, navigationValue = Null, lastActionType = Some CHANGE\<rparr>"
| "spec_reducer d (Navigate v) =
     \<lparr>data_value = data_value d,
      navigationValue = (case v of None \<Rightarrow> Null | Some s \<Rightarrow> Str s),
      lastActionType = Some NAVIGATE\<rparr>"
| "spec_reducer d Clear =
     \<lparr>data_value = Str [], navigationValue = Null, lastActionType = Some CLEAR\<rparr>"
| "spec_reducer d Blur =
     \<lparr>data_value = data_value d, navigationValue = Null, lastActionType = Some BLUR\<rparr>"
| "spec_reducer d Escape =
     \<lparr>data_value = data_value d, navigationValue = Null, lastActionType = Some ESCAPE\<rparr>"
| "spec_reducer d (SelectWithClick v) =
     \<lparr>data_value = Str v, navigationValue = Null, lastActionType = Some SELECT_WITH_CLICK\<rparr>"
| "spec_reducer d SelectWithKeyboard =
     \<lparr>data_value = navigationValue d, navigationValue = Null,
      lastActionType = Some SELECT_WITH_KEYBOARD\<rparr>"
| "spec_reducer d Interact =
     \<lparr>data_value = data_value d, navigationValue = Null, lastActionType = Some INTERACT\<rparr>"

subsection \<open>Facts about the names\<close>

lemmas action_names =
  CLEAR_def CHANGE_def NAVIGATE_def SELECT_WITH_KEYBOARD_def SELECT_WITH_CLICK_def
  ESCAPE_def BLUR_def INTERACT_def

lemma reducer_dispatched: "reducer d (dispatched st A) = Inr (spec_reducer d A)"
  by (cases A rule: Action_payload.cases)
    (simp_all add: reducer_def dispatched_def Let_def action_names)

section \<open>The machine driver and the reducer\<close>

text \<open>
  C1. For every state and every action name, \<open>transition\<close> succeeds exactly when the
  name is in the state's legal-action set as the specification lists it: it then returns
  the chart's next state with the reducer's data. For every other pair it throws
  \<open>Unknown action "a" for state "s"\<close>. The name is looked up among the keys the
  chart's tables write, so the statement covers the eight action names, which are all the
  widget ever passes, and any other name that is not a member every JavaScript object
  inherits (such as \<open>toString\<close>).
\<close>

theorem transition_legal_iff:
  "(a \<in> spec_legal_actions st \<longrightarrow>
      (\<exists>st' d'. transition st d a payload = Inr (st', d') \<and>
         map_of (stateChart_on st) a = Some st' \<and>
         reducer d \<lparr>action_type = a, action_state = st, action_nextState = st,
                    action_value = payload\<rparr> = Inr d')) \<and>
   (a \<notin> spec_legal_actions st \<longrightarrow>
      transition st d a payload = Inl (UnknownActionForState a st))"
  by (cases st) (auto simp: transition_def reducer_def Let_def action_names)

theorem transition_legal_iff_witness:
  "CHANGE \<in> spec_legal_actions IDLE \<and>
   transition IDLE defaultData CHANGE (Str [120]) =
     Inr (SUGGESTING,
          \<lparr>data_value = Str [120], navigationValue = Null, lastActionType = Some CHANGE\<rparr>) \<and>
   SELECT_WITH_KEYBOARD \<notin> spec_legal_actions IDLE \<and>
   transition IDLE defaultData SELECT_WITH_KEYBOARD Undefined =
     Inl (UnknownActionForState SELECT_WITH_KEYBOARD IDLE)"
  using transition_legal_iff [of CHANGE IDLE defaultData "Str [120]"]
    transition_legal_iff [of SELECT_WITH_KEYBOARD IDLE defaultData Undefined]
  by (auto simp: action_names reducer_def defaultData_def Let_def)

text \<open>
  C2. On each of the eight actions, whatever the data, the reducer returns what the
  specification's rules give (\<open>spec_reducer\<close>): Change(v) sets the value to v and the
  navigation value to null, Navigate(v) sets the navigation value to v (null included)
  and keeps the value, and so on. On an action whose type is none of the eight names it
  throws \<open>Unknown action\<close>.
\<close>

theorem reducer_refines_spec:
  "reducer d (dispatched st A) = Inr (spec_reducer d A) \<and>
   (action_type a \<notin> {CLEAR, CHANGE, NAVIGATE, SELECT_WITH_KEYBOARD, SELECT_WITH_CLICK,
                      ESCAPE, BLUR, INTERACT} \<longrightarrow>
      reducer d a = Inl (UnknownAction (action_type a)))"
  by (simp add: reducer_dispatched) (simp add: reducer_def)

theorem reducer_refines_spec_witness:
  "reducer defaultData (dispatched IDLE (Change [120])) =
     Inr \<lparr>data_value = Str [120], navigationValue = Null, lastActionType = Some CHANGE\<rparr> \<and>
   ''FOCUS'' \<notin> {CLEAR, CHANGE, NAVIGATE, SELECT_WITH_KEYBOARD, SELECT_WITH_CLICK,
                 ESCAPE, BLUR, INTERACT} \<and>
   reducer defaultData \<lparr>action_type = ''FOCUS'', action_state = IDLE,
                        action_nextState = IDLE, action_value = Undefined\<rparr> =
     Inl (UnknownAction ''FOCUS'')"
  using reducer_refines_spec [of defaultData IDLE "Change [120]"
      "\<lparr>action_type = ''FOCUS'', action_state = IDLE, action_nextState = IDLE,
        action_value = Undefined\<rparr>"]
  by (simp add: action_names)

text \<open>
  C6. Whatever the data before and whatever the payload, the reducer's output after an
  action of type CLEAR, BLUR, ESCAPE, SELECT_WITH_CLICK, SELECT_WITH_KEYBOARD or INTERACT
  has \<open>navigationValue\<close> null.
\<close>

theorem reducer_resets_navigationValue:
  "action_type a \<in> {CLEAR, BLUR, ESCAPE, SELECT_WITH_CLICK, SELECT_WITH_KEYBOARD, INTERACT}
   \<Longrightarrow> \<exists>d'. reducer d a = Inr d' \<and> navigationValue d' = Null"
  by (auto simp: reducer_def Let_def action_names)

theorem reducer_resets_navigationValue_witness:
  "action_type (dispatched NAVIGATING (SelectWithClick [97])) \<in>
     {CLEAR, BLUR, ESCAPE, SELECT_WITH_CLICK, SELECT_WITH_KEYBOARD, INTERACT} \<and>
   (\<exists>d'. reducer (defaultData\<lparr>navigationValue := Str [98]\<rparr>)
            (dispatched NAVIGATING (SelectWithClick [97])) = Inr d' \<and>
         navigationValue d' = Null)"
proof -
  have h: "action_type (dispatched NAVIGATING (SelectWithClick [97])) \<in>
     {CLEAR, BLUR, ESCAPE, SELECT_WITH_CLICK, SELECT_WITH_KEYBOARD, INTERACT}"
    by (simp add: dispatched_def)
  from reducer_resets_navigationValue [OF h] h show ?thesis by blast
qed

text \<open>
  C8. From any data, Clear then Change(x) then Clear gives the same record as a single
  Clear, in all three fields: the empty value, a null navigation value and CLEAR as the
  last action type.
\<close>

theorem clear_change_clear:
  "reducer_steps d [dispatched s1 Clear, dispatched s2 (Change x), dispatched s3 Clear] =
     reducer_steps d [dispatched s4 Clear] \<and>
   reducer_steps d [dispatched s4 Clear] =
     Inr \<lparr>data_value = Str [], navigationValue = Null, lastActionType = Some CLEAR\<rparr>"
  by (simp add: reducer_dispatched)

text \<open>
  Along a reachable run the value is a string and the navigation value is a string or
  null: SELECT_WITH_KEYBOARD copies the second into the first.
\<close>

lemma reachable_invariant:
  "reachable d \<Longrightarrow> (\<exists>s. data_value d = Str s) \<and> navigationValue d \<noteq> Undefined"
proof (induction rule: reachable.induct)
  case initial
  show ?case by (simp add: defaultData_def)
next
  case (step d A st d')
  then show ?case
    by (cases A rule: Action_payload.cases) (auto simp: reducer_dispatched)
next
  case (select d st d')
  then show ?case
    by (cases "navigationValue d") (auto simp: reducer_dispatched)
qed

text \<open>
  C10. In every data record reachable from \<open>defaultData\<close> by reducer steps in which
  SELECT_WITH_KEYBOARD is applied only while \<open>navigationValue\<close> is not null, the
  value is a string, never null. Without that guard the step is not safe: from any data
  whose \<open>navigationValue\<close> is null, SELECT_WITH_KEYBOARD sets the value to null.
\<close>

theorem value_is_string:
  "(reachable d \<longrightarrow> (\<exists>s. data_value d = Str s)) \<and>
   (navigationValue d0 = Null \<longrightarrow>
      (\<exists>d'. reducer d0 (dispatched st SelectWithKeyboard) = Inr d' \<and> data_value d' = Null))"
  by (simp add: reachable_invariant reducer_dispatched)

theorem value_is_string_witness:
  "reachable \<lparr>data_value = Str [98], navigationValue = Null,
              lastActionType = Some SELECT_WITH_KEYBOARD\<rparr> \<and>
   (\<exists>s. data_value \<lparr>data_value = Str [98], navigationValue = Null,
                     lastActionType = Some SELECT_WITH_KEYBOARD\<rparr> = Str s) \<and>
   navigationValue defaultData = Null \<and>
   (\<exists>d'. reducer defaultData (dispatched IDLE SelectWithKeyboard) = Inr d' \<and>
      data_value d' = Null)"
proof -
  let ?d1 = "\<lparr>data_value = Str [], navigationValue = Str [98], lastActionType = Some NAVIGATE\<rparr>"
  let ?d2 = "\<lparr>data_value = Str [98], navigationValue = Null,
              lastActionType = Some SELECT_WITH_KEYBOARD\<rparr>"
  have e1: "reducer defaultData (dispatched IDLE (Navigate (Some [98]))) = Inr ?d1"
    by (simp add: reducer_dispatched defaultData_def)
  have r1: "reachable ?d1"
    by (rule reachable.step [OF reachable.initial _ e1]) simp
  have e2: "reducer ?d1 (dispatched NAVIGATING SelectWithKeyboard) = Inr ?d2"
    by (simp add: reducer_dispatched)
  have r2: "reachable ?d2"
    by (rule reachable.select [OF r1 _ e2]) simp
  have n: "navigationValue defaultData = Null" by (simp add: defaultData_def)
  from value_is_string [of ?d2 defaultData IDLE] r2 n show ?thesis by blast
qed

section \<open>The keyboard handler\<close>

text \<open>
  \<open>indexOf\<close> is the position of the first occurrence: -1 exactly when the value is
  not a string of the list, and otherwise an index at which the list holds the value.
\<close>

lemma indexOf_from_takeWhile:
  "indexOf_from xs s i =
     (if s \<in> set xs then i + int (length (takeWhile (\<lambda>x. x \<noteq> s) xs)) else - 1)"
  by (induction xs arbitrary: i) auto

lemma indexOf_absent:
  "(indexOf xs v = - 1) = (\<forall>s. v = Str s \<longrightarrow> s \<notin> set xs)"
  by (cases v) (simp_all add: indexOf_from_takeWhile)

lemma takeWhile_neq_less: "s \<in> set xs \<Longrightarrow> length (takeWhile (\<lambda>x. x \<noteq> s) xs) < length xs"
  by (induction xs) auto

lemma indexOf_range: "- 1 \<le> indexOf xs v \<and> indexOf xs v < int (length xs)"
  by (cases v) (auto simp: indexOf_from_takeWhile takeWhile_neq_less)

lemma indexOf_present:
  assumes "indexOf xs v \<noteq> - 1"
  shows "0 \<le> indexOf xs v \<and> indexOf xs v < int (length xs) \<and> Str (xs ! nat (indexOf xs v)) = v"
proof -
  from assms obtain s where v: "v = Str s" and s: "s \<in> set xs"
    by (auto simp: indexOf_absent)
  let ?n = "length (takeWhile (\<lambda>x. x \<noteq> s) xs)"
  have "?n < length xs" using s by (rule takeWhile_neq_less)
  moreover from this have "\<not> (xs ! ?n \<noteq> s)" by (rule nth_length_takeWhile)
  ultimately show ?thesis using v s by (simp add: indexOf_from_takeWhile)
qed

lemma smod_nonneg: "0 \<le> a \<Longrightarrow> 0 < b \<Longrightarrow> a smod b = a mod (b::int)"
  by (simp add: signed_modulo_int_def sgn_if)

lemma array_get_in_range:
  "0 \<le> i \<Longrightarrow> i < int (length xs) \<Longrightarrow> array_get xs i = Str (xs ! nat i)"
  by (simp add: array_get_def)

lemma ArrowDown_effects:
  assumes "ctx_optionsRef c = Some options" "options \<noteq> []"
  shows "handleKeyDown c ''ArrowDown'' =
     [PreventDefault, Transition NAVIGATE
        (if ctx_state c = IDLE then Null
         else if indexOf options (navigationValue (ctx_data c)) = int (length options) - 1 then
           (if ctx_autocompletePropRef c then Null else Str (options ! 0))
         else Str (options ! nat ((indexOf options (navigationValue (ctx_data c)) + 1)
                                    mod int (length options))))]"
proof -
  let ?i = "indexOf options (navigationValue (ctx_data c))"
  let ?n = "int (length options)"
  have n: "0 < ?n" using assms(2) by simp
  have "- 1 \<le> ?i" using indexOf_range[of options] by simp
  then have m: "(?i + 1) smod ?n = (?i + 1) mod ?n" using n by (simp add: smod_nonneg)
  have g: "array_get options ((?i + 1) mod ?n) = Str (options ! nat ((?i + 1) mod ?n))"
    using n by (intro array_get_in_range) simp_all
  have g0: "array_get options 0 = Str (options ! 0)"
    using n by (simp add: array_get_def)
  show ?thesis
    using assms by (simp add: handleKeyDown_def Let_def m g g0)
qed

lemma ArrowUp_effects:
  assumes "ctx_optionsRef c = Some options" "options \<noteq> []"
  shows "handleKeyDown c ''ArrowUp'' =
     [PreventDefault, Transition NAVIGATE
        (if ctx_state c = IDLE then Null
         else if indexOf options (navigationValue (ctx_data c)) = 0 then
           (if ctx_autocompletePropRef c then Null else Str (options ! (length options - 1)))
         else if indexOf options (navigationValue (ctx_data c)) = - 1 then
           Str (options ! (length options - 1))
         else Str (options ! nat ((indexOf options (navigationValue (ctx_data c)) - 1
                                     + int (length options)) mod int (length options))))]"
proof -
  let ?i = "indexOf options (navigationValue (ctx_data c))"
  let ?n = "int (length options)"
  let ?j = "(?i - 1 + ?n) mod ?n"
  have n: "0 < ?n" using assms(2) by simp
  have lo: "- 1 \<le> ?i" using indexOf_range[of options] by simp
  have m: "(?i - 1 + ?n) smod ?n = ?j" if "?i \<noteq> 0" "?i \<noteq> - 1"
  proof (rule smod_nonneg)
    show "0 \<le> ?i - 1 + ?n" using lo that n by linarith
    show "0 < ?n" by (rule n)
  qed
  have g: "array_get options ?j = Str (options ! nat ?j)"
    using n by (intro array_get_in_range) simp_all
  have gl: "array_get options (?n - 1) = Str (options ! (length options - 1))"
    using n by (simp add: array_get_def nat_diff_distrib')
  show ?thesis
  proof (cases "?i = 0 \<or> ?i = - 1")
    case True
    then show ?thesis using assms gl by (auto simp: handleKeyDown_def Let_def)
  next
    case False
    then have "(?i - 1 + ?n) smod ?n = ?j" using m by simp
    then have "array_get options ((?i - 1 + ?n) smod ?n) = Str (options ! nat ?j)"
      using g by simp
    then show ?thesis using assms False gl by (simp add: handleKeyDown_def Let_def)
  qed
qed


lemma no_options_effects:
  assumes "ctx_optionsRef c = None \<or> ctx_optionsRef c = Some []"
  shows "handleKeyDown c ''ArrowDown'' = [PreventDefault]"
    and "handleKeyDown c ''ArrowUp'' = [PreventDefault]"
  using assms by (auto simp: handleKeyDown_def Let_def)

text \<open>
  C3. ArrowDown with a non-empty registry asks for exactly one transition, a NAVIGATE:
  to null from IDLE; otherwise, with index the position of \<open>navigationValue\<close> in the
  registry (-1 exactly when it is null or not in the registry), to null at the last index
  when autocomplete is on, to the first option at the last index when it is off, and to
  the option at \<open>(index + 1) mod len\<close> in every other case, index -1 included. With
  no registry or an empty one it asks for no transition.
\<close>

theorem ArrowDown_action:
  "(ctx_optionsRef c = Some options \<and> options \<noteq> [] \<longrightarrow>
      transitions_of (handleKeyDown c ''ArrowDown'') =
        [(NAVIGATE,
          if ctx_state c = IDLE then Null
          else if indexOf options (navigationValue (ctx_data c)) = int (length options) - 1
          then (if ctx_autocompletePropRef c then Null else Str (options ! 0))
          else Str (options ! nat ((indexOf options (navigationValue (ctx_data c)) + 1)
                                     mod int (length options))))] \<and>
      ((indexOf options (navigationValue (ctx_data c)) = - 1) =
         (\<forall>s. navigationValue (ctx_data c) = Str s \<longrightarrow> s \<notin> set options)) \<and>
      (indexOf options (navigationValue (ctx_data c)) \<noteq> - 1 \<longrightarrow>
         Str (options ! nat (indexOf options (navigationValue (ctx_data c)))) =
           navigationValue (ctx_data c))) \<and>
   (ctx_optionsRef c = None \<or> ctx_optionsRef c = Some [] \<longrightarrow>
      transitions_of (handleKeyDown c ''ArrowDown'') = [])"
  by (simp add: ArrowDown_effects no_options_effects indexOf_absent indexOf_present)

theorem ArrowDown_action_witness:
  "transitions_of (handleKeyDown
      \<lparr>ctx_data = \<lparr>data_value = Str [], navigationValue = Str [99], lastActionType = Some NAVIGATE\<rparr>,
       ctx_onSelect = True, ctx_optionsRef = Some [[97], [98], [99]],
       ctx_state = NAVIGATING, ctx_autocompletePropRef = False\<rparr> ''ArrowDown'') =
     [(NAVIGATE, Str [97])] \<and>
   transitions_of (handleKeyDown
      \<lparr>ctx_data = \<lparr>data_value = Str [], navigationValue = Str [99], lastActionType = Some NAVIGATE\<rparr>,
       ctx_onSelect = True, ctx_optionsRef = Some [],
       ctx_state = NAVIGATING, ctx_autocompletePropRef = False\<rparr> ''ArrowDown'') = []"
  using ArrowDown_action [of
      "\<lparr>ctx_data = \<lparr>data_value = Str [], navigationValue = Str [99], lastActionType = Some NAVIGATE\<rparr>,
       ctx_onSelect = True, ctx_optionsRef = Some [[97], [98], [99]],
       ctx_state = NAVIGATING, ctx_autocompletePropRef = False\<rparr>" "[[97], [98], [99]]"]
    ArrowDown_action [of
      "\<lparr>ctx_data = \<lparr>data_value = Str [], navigationValue = Str [99], lastActionType = Some NAVIGATE\<rparr>,
       ctx_onSelect = True, ctx_optionsRef = Some [],
       ctx_state = NAVIGATING, ctx_autocompletePropRef = False\<rparr>" "[]"]
  by simp

text \<open>
  C4. ArrowUp with a non-empty registry asks for exactly one transition, a NAVIGATE: to
  null from IDLE; otherwise to null at index 0 when autocomplete is on, to the last
  option at index 0 when it is off, to the last option when \<open>navigationValue\<close> is not
  in the registry (index -1), and to the option at \<open>(index - 1 + len) mod len\<close> in
  every other case. With no registry or an empty one it asks for no transition, from
  IDLE too (the test for an empty registry comes first).
\<close>

theorem ArrowUp_action:
  "(ctx_optionsRef c = Some options \<and> options \<noteq> [] \<longrightarrow>
      transitions_of (handleKeyDown c ''ArrowUp'') =
        [(NAVIGATE,
          if ctx_state c = IDLE then Null
          else if indexOf options (navigationValue (ctx_data c)) = 0
          then (if ctx_autocompletePropRef c then Null
                else Str (options ! (length options - 1)))
          else if indexOf options (navigationValue (ctx_data c)) = - 1
          then Str (options ! (length options - 1))
          else Str (options ! nat ((indexOf options (navigationValue (ctx_data c)) - 1
                                      + int (length options)) mod int (length options))))] \<and>
      ((indexOf options (navigationValue (ctx_data c)) = - 1) =
         (\<forall>s. navigationValue (ctx_data c) = Str s \<longrightarrow> s \<notin> set options)) \<and>
      (indexOf options (navigationValue (ctx_data c)) \<noteq> - 1 \<longrightarrow>
         Str (options ! nat (indexOf options (navigationValue (ctx_data c)))) =
           navigationValue (ctx_data c))) \<and>
   (ctx_optionsRef c = None \<or> ctx_optionsRef c = Some [] \<longrightarrow>
      transitions_of (handleKeyDown c ''ArrowUp'') = [])"
  by (simp add: ArrowUp_effects no_options_effects indexOf_absent indexOf_present)

theorem ArrowUp_action_witness:
  "transitions_of (handleKeyDown
      \<lparr>ctx_data = \<lparr>data_value = Str [], navigationValue = Null, lastActionType = Some NAVIGATE\<rparr>,
       ctx_onSelect = True, ctx_optionsRef = Some [[97], [98], [99]],
       ctx_state = NAVIGATING, ctx_autocompletePropRef = True\<rparr> ''ArrowUp'') =
     [(NAVIGATE, Str [99])] \<and>
   transitions_of (handleKeyDown
      \<lparr>ctx_data = \<lparr>data_value = Str [], navigationValue = Null, lastActionType = Some NAVIGATE\<rparr>,
       ctx_onSelect = True, ctx_optionsRef = None,
       ctx_state = NAVIGATING, ctx_autocompletePropRef = True\<rparr> ''ArrowUp'') = []"
  using ArrowUp_action [of
      "\<lparr>ctx_data = \<lparr>data_value = Str [], navigationValue = Null, lastActionType = Some NAVIGATE\<rparr>,
       ctx_onSelect = True, ctx_optionsRef = Some [[97], [98], [99]],
       ctx_state = NAVIGATING, ctx_autocompletePropRef = True\<rparr>" "[[97], [98], [99]]"]
    ArrowUp_action [of
      "\<lparr>ctx_data = \<lparr>data_value = Str [], navigationValue = Null, lastActionType = Some NAVIGATE\<rparr>,
       ctx_onSelect = True, ctx_optionsRef = None,
       ctx_state = NAVIGATING, ctx_autocompletePropRef = True\<rparr>" "[]"]
  by simp

text \<open>
  C5. Enter asks for the transition SELECT_WITH_KEYBOARD, and calls \<open>onSelect\<close> once
  with the current \<open>navigationValue\<close> and not again, exactly when the state is
  NAVIGATING and \<open>navigationValue\<close> is not null; the callback is called when the
  \<open>onSelect\<close> prop was given (\<open>onSelect && onSelect(navigationValue)\<close>). In every
  other case, NAVIGATING with a null \<open>navigationValue\<close> among them, Enter does
  nothing at all.
\<close>

theorem Enter_selects:
  "(ctx_state c = NAVIGATING \<and> navigationValue (ctx_data c) \<noteq> Null \<longrightarrow>
      transitions_of (handleKeyDown c ''Enter'') = [(SELECT_WITH_KEYBOARD, Undefined)] \<and>
      (ctx_onSelect c \<longrightarrow>
         selections_of (handleKeyDown c ''Enter'') = [navigationValue (ctx_data c)]) \<and>
      (\<not> ctx_onSelect c \<longrightarrow> selections_of (handleKeyDown c ''Enter'') = [])) \<and>
   (\<not> (ctx_state c = NAVIGATING \<and> navigationValue (ctx_data c) \<noteq> Null) \<longrightarrow>
      handleKeyDown c ''Enter'' = [])"
  by (simp add: handleKeyDown_def Let_def)

theorem Enter_selects_witness:
  "selections_of (handleKeyDown
      \<lparr>ctx_data = \<lparr>data_value = Str [], navigationValue = Str [98], lastActionType = Some NAVIGATE\<rparr>,
       ctx_onSelect = True, ctx_optionsRef = Some [[97], [98]],
       ctx_state = NAVIGATING, ctx_autocompletePropRef = True\<rparr> ''Enter'') = [Str [98]] \<and>
   transitions_of (handleKeyDown
      \<lparr>ctx_data = \<lparr>data_value = Str [], navigationValue = Str [98], lastActionType = Some NAVIGATE\<rparr>,
       ctx_onSelect = True, ctx_optionsRef = Some [[97], [98]],
       ctx_state = NAVIGATING, ctx_autocompletePropRef = True\<rparr> ''Enter'') =
     [(SELECT_WITH_KEYBOARD, Undefined)] \<and>
   handleKeyDown
      \<lparr>ctx_data = \<lparr>data_value = Str [], navigationValue = Null, lastActionType = Some NAVIGATE\<rparr>,
       ctx_onSelect = True, ctx_optionsRef = Some [[97], [98]],
       ctx_state = NAVIGATING, ctx_autocompletePropRef = True\<rparr> ''Enter'' = []"
  using Enter_selects [of
      "\<lparr>ctx_data = \<lparr>data_value = Str [], navigationValue = Str [98], lastActionType = Some NAVIGATE\<rparr>,
       ctx_onSelect = True, ctx_optionsRef = Some [[97], [98]],
       ctx_state = NAVIGATING, ctx_autocompletePropRef = True\<rparr>"]
    Enter_selects [of
      "\<lparr>ctx_data = \<lparr>data_value = Str [], navigationValue = Null, lastActionType = Some NAVIGATE\<rparr>,
       ctx_onSelect = True, ctx_optionsRef = Some [[97], [98]],
       ctx_state = NAVIGATING, ctx_autocompletePropRef = True\<rparr>"]
  by simp

section \<open>The controlled input\<close>

text \<open>\<open>value.trim() === ""\<close> holds exactly of the strings made of white space only.\<close>

lemma dropWhile_twice_Nil:
  "(dropWhile P (rev (dropWhile P xs)) = []) = (\<forall>x\<in>set xs. P x)"
proof
  assume a: "dropWhile P (rev (dropWhile P xs)) = []"
  show "\<forall>x\<in>set xs. P x"
  proof (cases "dropWhile P xs = []")
    case True
    then show ?thesis by (simp add: dropWhile_eq_Nil_conv)
  next
    case False
    then have "\<not> P (hd (dropWhile P xs))" by (rule hd_dropWhile)
    moreover have "hd (dropWhile P xs) \<in> set (dropWhile P xs)" using False by simp
    ultimately show ?thesis using a by (auto simp: dropWhile_eq_Nil_conv)
  qed
next
  assume "\<forall>x\<in>set xs. P x"
  then have "dropWhile P xs = []" by (simp add: dropWhile_eq_Nil_conv)
  then show "dropWhile P (rev (dropWhile P xs)) = []"
    by (simp only: rev.simps dropWhile.simps)
qed

lemma trim_empty_iff: "(trim v = []) = (\<forall>c\<in>set v. isWhiteSpace c)"
  unfolding trim_def by (simp only: rev_is_Nil_conv dropWhile_twice_Nil)

lemma transition_CHANGE:
  "\<exists>st'. transition st d CHANGE p =
     Inr (st', d\<lparr>lastActionType := Some CHANGE, navigationValue := Null, data_value := p\<rparr>)"
  by (cases st) (simp_all add: transition_def reducer_def Let_def action_names)

lemma transition_CLEAR:
  "st \<noteq> INTERACTING \<Longrightarrow>
   transition st d CLEAR p =
     Inr (IDLE, d\<lparr>lastActionType := Some CLEAR, data_value := Str [], navigationValue := Null\<rparr>)"
  by (cases st) (simp_all add: transition_def reducer_def Let_def action_names)

text \<open>
  The path that works: a controlled value that is not white space only is dispatched as
  a CHANGE, legal in every state, after which \<open>data.value\<close> is the controlled value
  and the next render makes no call.
\<close>

lemma controlled_change_settles:
  assumes "isControlled (Str v)" and "Str v \<noteq> data_value d"
    and "\<not> (\<forall>c\<in>set v. isWhiteSpace c)"
  shows "render_sync d (Str v) = Some (CHANGE, Str v) \<and>
     (\<exists>st' d'. render_input st d (Str v) = Inr (st', d') \<and> data_value d' = Str v \<and>
        render_sync d' (Str v) = None)"
proof -
  have h: "handleValueChange v = (CHANGE, Str v)"
    using assms(3) by (simp add: handleValueChange_def trim_empty_iff)
  have s: "render_sync d (Str v) = Some (CHANGE, Str v)"
    using assms(1,2) h by (simp add: render_sync_def)
  obtain st' where "transition st d CHANGE (Str v) =
     Inr (st', d\<lparr>lastActionType := Some CHANGE, navigationValue := Null, data_value := Str v\<rparr>)"
    using transition_CHANGE by blast
  then have "\<exists>st' d'. render_input st d (Str v) = Inr (st', d') \<and> data_value d' = Str v \<and>
      render_sync d' (Str v) = None"
    using s by (simp add: render_input_def render_sync_def)
  with s show ?thesis by simp
qed

text \<open>
  The path that does not: a controlled value of white space only that is not empty is
  dispatched as a CLEAR, which leaves \<open>data.value\<close> empty, so the render's test holds
  again and the same CLEAR is dispatched by every render that follows.
\<close>

lemma whitespace_render:
  assumes "v \<noteq> []" and "\<forall>c\<in>set v. isWhiteSpace c" and "data_value d = Str []"
    and "st \<noteq> INTERACTING"
  shows "render_input st d (Str v) =
     Inr (IDLE, \<lparr>data_value = Str [], navigationValue = Null, lastActionType = Some CLEAR\<rparr>)"
proof -
  have "handleValueChange v = (CLEAR, Undefined)"
    using assms(2) by (simp add: handleValueChange_def trim_empty_iff)
  then have "render_sync d (Str v) = Some (CLEAR, Undefined)"
    using assms(1,3) by (simp add: render_sync_def isControlled_def)
  then show ?thesis
    using assms(4) by (simp add: render_input_def transition_CLEAR)
qed

lemma whitespace_render_times:
  assumes "v \<noteq> []" and "\<forall>c\<in>set v. isWhiteSpace c"
  shows "render_input_times n IDLE
       \<lparr>data_value = Str [], navigationValue = Null, lastActionType = Some CLEAR\<rparr> (Str v) =
     Inr (IDLE, \<lparr>data_value = Str [], navigationValue = Null, lastActionType = Some CLEAR\<rparr>)"
proof (induction n)
  case 0
  show ?case by simp
next
  case (Suc n)
  have "render_input IDLE
       \<lparr>data_value = Str [], navigationValue = Null, lastActionType = Some CLEAR\<rparr> (Str v) =
     Inr (IDLE, \<lparr>data_value = Str [], navigationValue = Null, lastActionType = Some CLEAR\<rparr>)"
    using assms by (intro whitespace_render) simp_all
  with Suc show ?case by simp
qed

text \<open>
  C7. The claim: when the input is controlled and the controlled value differs from
  \<open>data.value\<close>, one action (CLEAR for an empty or white-space-only value, CHANGE
  otherwise) brings \<open>data.value\<close> to the controlled value, and no further sync action
  follows. The code does not do this for a CLEAR. With the controlled value one space and
  the default data, every render dispatches a CLEAR: after any number of renders
  \<open>data.value\<close> is still the empty string, not the controlled value, and the next
  render dispatches CLEAR again. With the controlled value emptied while the state is
  INTERACTING, the call throws, CLEAR not being in that state's table.
\<close>

theorem controlled_sync_never_settles:
  "render_input_times (Suc n) IDLE defaultData (Str [32]) =
     Inr (IDLE, \<lparr>data_value = Str [], navigationValue = Null, lastActionType = Some CLEAR\<rparr>) \<and>
   data_value \<lparr>data_value = Str [], navigationValue = Null, lastActionType = Some CLEAR\<rparr>
     \<noteq> Str [32] \<and>
   render_sync \<lparr>data_value = Str [], navigationValue = Null, lastActionType = Some CLEAR\<rparr>
     (Str [32]) = Some (CLEAR, Undefined) \<and>
   render_input INTERACTING
     \<lparr>data_value = Str [97], navigationValue = Null, lastActionType = Some INTERACT\<rparr>
     (Str []) = Inl (UnknownActionForState CLEAR INTERACTING)"
proof -
  have w: "\<forall>c\<in>set [32]. isWhiteSpace c" by (simp add: isWhiteSpace_def)
  have "render_input IDLE defaultData (Str [32]) =
     Inr (IDLE, \<lparr>data_value = Str [], navigationValue = Null, lastActionType = Some CLEAR\<rparr>)"
    using w by (intro whitespace_render) (simp_all add: defaultData_def)
  then have "render_input_times (Suc n) IDLE defaultData (Str [32]) =
     Inr (IDLE, \<lparr>data_value = Str [], navigationValue = Null, lastActionType = Some CLEAR\<rparr>)"
    using w by (simp add: whitespace_render_times)
  moreover have "render_sync
     \<lparr>data_value = Str [], navigationValue = Null, lastActionType = Some CLEAR\<rparr>
     (Str [32]) = Some (CLEAR, Undefined)"
    using w by (simp add: render_sync_def isControlled_def handleValueChange_def trim_empty_iff)
  moreover have "render_input INTERACTING
     \<lparr>data_value = Str [97], navigationValue = Null, lastActionType = Some INTERACT\<rparr>
     (Str []) = Inl (UnknownActionForState CLEAR INTERACTING)"
    by (simp add: render_input_def render_sync_def isControlled_def handleValueChange_def
        trim_def transition_def action_names)
  ultimately show ?thesis by simp
qed

section \<open>Option identity\<close>

text \<open>The hash of "abc", as the loop computes it.\<close>

lemma makeHash_abc: "makeHash [97, 98, 99] = 96354"
  by (simp add: makeHash_def toInt32_def shiftLeft_def)




end
